theory Spec2Isabelle
  imports Complex_Main
begin

section \<open>Data model of the EasyPost shipping client\<close>

text \<open>
  The client (class \<open>EasyPostShippingClient\<close>) keeps a table of shipments in one JSON
  file and drives a two-stage workflow over it: \<open>createShipment\<close> stores a pending
  shipment with its rates, \<open>buyLabel\<close> purchases one rate, \<open>cancelShipment\<close> drops an
  unpurchased shipment and \<open>voidLabel\<close> asks for a refund.

  JavaScript numbers are idealised as rationals: no claim below depends on the rounding
  of a double. Optional fields (\<open>name?: string\<close>) are \<open>option\<close> values, \<open>None\<close>
  standing for \<open>undefined\<close>.
\<close>

type_synonym number = rat

record Address =
  name :: "string option"
  company :: "string option"
  street1 :: string
  street2 :: "string option"
  city :: string
  state :: "string option"
  zip_code :: string
  country :: string
  phone :: "string option"
  email :: "string option"

text \<open>The caller's parcel: weight in kg, dimensions in cm.\<close>

record Parcel =
  length_cm :: "number option"
  width_cm :: "number option"
  height_cm :: "number option"
  weight_kg :: number

text \<open>
  A rate as the API delivers it and as it is stored. The source reads the carrier with
  \<open>r.carrier?.toLowerCase()\<close>, so a missing carrier is a value of the model.
\<close>

record Rate =
  rate_id :: string
  carrier :: "string option"
  service :: string
  rate :: string
  currency :: string
  delivery_days :: "number option"
  delivery_date :: "string option"

datatype Status = pending | purchased | voided

record PendingShipment =
  shipment_id :: string
  createdAt :: string
  orderId :: "string option"
  toAddress :: Address
  fromAddress :: Address
  parcel :: Parcel
  rates :: "Rate list"
  status :: Status
  trackingCode :: "string option"
  labelUrl :: "string option"

record ShipmentState =
  shipments :: "string \<rightharpoonup> PendingShipment"
  lastUpdated :: string

record CreateShipmentOptions =
  opt_orderId :: "string option"
  opt_toAddress :: "Address option"
  opt_parcel :: Parcel
  opt_carrier :: "string option"

record PurchasedLabel =
  label_trackingCode :: string
  label_labelUrl :: "string option"
  label_carrier :: "string option"
  label_service :: string
  label_rate :: string
  label_currency :: string

record OpResult =
  success :: bool
  message :: string

section \<open>Errors\<close>

text \<open>
  The source throws plain \<open>Error\<close> objects that differ in their message only. The model
  tags each error with the place that raises it and keeps the message text.
\<close>

datatype error_kind =
  MissingDestination
  | AddressResolution
  | ExternalCall
  | NoRatesAvailable
  | ShipmentNotFound
  | AlreadyPurchased
  | RateNotFound
  | TypeError
  | ReadFailure
  | SyntaxError

datatype error = Error error_kind string

section \<open>JavaScript values\<close>

text \<open>
  Truthiness, as \<open>if (x)\<close>, \<open>x && y\<close> and \<open>!x\<close> test it: an optional string is truthy
  when it is present and not empty, an optional number when it is present and not zero
  (\<open>NaN\<close> has no counterpart among the rationals).
\<close>

definition truthy_string :: "string option \<Rightarrow> bool" where
  "truthy_string s = (case s of None \<Rightarrow> False | Some v \<Rightarrow> v \<noteq> [])"

definition truthy_number :: "number option \<Rightarrow> bool" where
  "truthy_number n = (case n of None \<Rightarrow> False | Some v \<Rightarrow> v \<noteq> 0)"

text \<open>A template literal prints a missing value as the word \<open>undefined\<close>.\<close>

definition template :: "string option \<Rightarrow> string" where
  "template s = (case s of None \<Rightarrow> ''undefined'' | Some v \<Rightarrow> v)"

text \<open>\<open>Array.prototype.join\<close>.\<close>

fun join :: "string \<Rightarrow> string list \<Rightarrow> string" where
  "join sep [] = []"
| "join sep [x] = x"
| "join sep (x # y # ys) = x @ sep @ join sep (y # ys)"

text \<open>
  \<open>String.prototype.toLowerCase\<close> on the ASCII letters; every other character is left
  as it is (carrier names are ASCII).
\<close>

definition lower_char :: "char \<Rightarrow> char" where
  "lower_char c =
     (let n = (of_char c :: nat)
      in if 65 \<le> n \<and> n \<le> 90 then char_of (n + 32) else c)"

definition toLowerCase :: "string \<Rightarrow> string" where
  "toLowerCase s = map lower_char s"

text \<open>
  Property access on the shipment table. The table is an ordinary object (made by
  \<open>JSON.parse\<close> or by the literal \<open>{}\<close>), so \<open>state.shipments[key]\<close> finds an own
  property first and then the members of \<open>Object.prototype\<close>: for a key such as
  \<open>constructor\<close> the lookup yields a function, which is truthy and has no \<open>status\<close>
  and no \<open>rates\<close>.
\<close>

definition object_prototype_keys :: "string list" where
  "object_prototype_keys =
     [''constructor'', ''__proto__'', ''hasOwnProperty'', ''isPrototypeOf'',
      ''propertyIsEnumerable'', ''toLocaleString'', ''toString'', ''valueOf'',
      ''__defineGetter__'', ''__defineSetter__'', ''__lookupGetter__'',
      ''__lookupSetter__'']"

datatype 'a property = Undefined | Own 'a | Inherited

definition get_property :: "(string \<rightharpoonup> 'a) \<Rightarrow> string \<Rightarrow> 'a property" where
  "get_property obj key =
     (case obj key of
        Some v \<Rightarrow> Own v
      | None \<Rightarrow> if key \<in> set object_prototype_keys then Inherited else Undefined)"

text \<open>
  Assignment \<open>obj[key] = v\<close> creates or overwrites an own property, except that
  \<open>__proto__\<close>, when it is not an own property, is the setter of the prototype and adds
  nothing to the object. \<open>delete obj[key]\<close> removes an own property.
\<close>

definition set_property :: "(string \<rightharpoonup> 'a) \<Rightarrow> string \<Rightarrow> 'a \<Rightarrow> (string \<rightharpoonup> 'a)" where
  "set_property obj key v =
     (if key = ''__proto__'' \<and> obj key = None then obj else obj(key \<mapsto> v))"

definition delete_property :: "(string \<rightharpoonup> 'a) \<Rightarrow> string \<Rightarrow> (string \<rightharpoonup> 'a)" where
  "delete_property obj key = obj(key := None)"

section \<open>The backing file\<close>

text \<open>
  The state file is absent, unreadable, or readable; what is read either fails to parse
  or parses to a \<open>ShipmentState\<close> (the source casts the parsed value to that type; the
  file is written by \<open>saveState\<close> only).
\<close>

datatype file_contents = Garbage | Json ShipmentState

datatype backing_file = Absent | Unreadable | Readable file_contents

definition existsSync :: "backing_file \<Rightarrow> bool" where
  "existsSync f = (f \<noteq> Absent)"

definition readFileSync :: "backing_file \<Rightarrow> error + file_contents" where
  "readFileSync f =
     (case f of
        Readable c \<Rightarrow> Inr c
      | _ \<Rightarrow> Inl (Error ReadFailure ''cannot read the state file''))"

definition JSON_parse :: "file_contents \<Rightarrow> error + ShipmentState" where
  "JSON_parse c =
     (case c of
        Json s \<Rightarrow> Inr s
      | Garbage \<Rightarrow> Inl (Error SyntaxError ''Unexpected token in JSON''))"

definition empty_state :: "string \<Rightarrow> ShipmentState" where
  "empty_state now = \<lparr>shipments = Map.empty, lastUpdated = now\<rparr>"

text \<open>
  \<open>loadState\<close>: the result is a sum so that an escaping exception would be a value
  \<open>Inl\<close>; the \<open>try\<close>/\<open>catch\<close> of the source is the case distinction on the read and
  the parse.
\<close>

definition loadState :: "string \<Rightarrow> backing_file \<Rightarrow> error + ShipmentState" where
  "loadState now f =
     (if \<not> existsSync f then Inr (empty_state now)
      else
        (case readFileSync f of
           Inl e \<Rightarrow> Inr (empty_state now)
         | Inr c \<Rightarrow>
             (case JSON_parse c of
                Inl e \<Rightarrow> Inr (empty_state now)
              | Inr s \<Rightarrow> Inr s)))"

definition saveState :: "string \<Rightarrow> ShipmentState \<Rightarrow> backing_file" where
  "saveState now st = Readable (Json (st\<lparr>lastUpdated := now\<rparr>))"

section \<open>What lies outside the client\<close>

text \<open>The parcel of an EasyPost request: weight in ounces, dimensions in inches.\<close>

record EasyPostParcel =
  weight_oz :: number
  length_in :: "number option"
  width_in :: "number option"
  height_in :: "number option"

record ShipmentParams =
  to_address :: Address
  from_address :: Address
  request_parcel :: EasyPostParcel
  carrier_accounts :: "string list option"

text \<open>What the EasyPost API answers: the fields the client reads.\<close>

record ApiShipment =
  api_id :: string
  api_rates :: "Rate list option"

record ApiPurchase =
  tracking_code :: string
  label_url :: "string option"

record ApiRefund =
  refund_status :: "string option"

text \<open>
  The services the client calls, with the clock, the configuration and the builtin
  \<open>parseFloat\<close> (the value of the double it returns; \<open>None\<close> is \<open>NaN\<close>). A call
  that throws is \<open>Inl\<close> of the text that \<open>error.message || error\<close> prints.
  \<open>fetchShopifyOrderAddress\<close> runs the Shopify tool in another process; only its
  outcome matters here. The clock is read once for an operation. \<open>write_error\<close>
  is what \<open>writeFileSync\<close> throws on the state file, when it throws (the path is a
  directory, the file may not be written, the disk is full).
\<close>

record Services =
  now :: string
  upsAccountId :: "string option"
  parseFloat :: "string \<Rightarrow> number option"
  fetchShopifyOrderAddress :: "string \<Rightarrow> string + Address"
  Shipment_create :: "ShipmentParams \<Rightarrow> string + ApiShipment"
  Shipment_buy :: "string \<Rightarrow> string \<Rightarrow> string + ApiPurchase"
  Shipment_refund :: "string \<Rightarrow> string + ApiRefund"
  write_error :: "string option"

text \<open>
  The world an operation runs in: the backing file and the calls made to the outside,
  oldest first. In \<open>createShipment\<close>, \<open>buyLabel\<close> and \<open>cancelShipment\<close> an
  exception of the write would escape to the caller; these are modelled on the runs in
  which the write succeeds. \<open>voidLabel\<close> catches what the write throws and is modelled
  with it; a write that throws leaves the file as it was.
\<close>

datatype external_call =
  GetOrder string
  | ShipmentCreate ShipmentParams
  | ShipmentBuy string string
  | ShipmentRefund string

record World =
  state_file :: backing_file
  calls :: "external_call list"

definition called :: "external_call \<Rightarrow> World \<Rightarrow> World" where
  "called c w = w\<lparr>calls := calls w @ [c]\<rparr>"

text \<open>The shipment table a load of the file yields.\<close>

definition stored_shipments :: "World \<Rightarrow> (string \<rightharpoonup> PendingShipment)" where
  "stored_shipments w =
     (case loadState [] (state_file w) of Inl e \<Rightarrow> Map.empty | Inr st \<Rightarrow> shipments st)"

section \<open>Creating a shipment\<close>

definition getFromAddress :: Address where
  "getFromAddress =
     \<lparr>name = None,
      company = Some ''YOUR_COMPANY'',
      street1 = ''YOUR_WAREHOUSE_ADDRESS_LINE_1'',
      street2 = Some ''YOUR_WAREHOUSE_ADDRESS_LINE_2'',
      city = ''YOUR_CITY'',
      state = Some [],
      zip_code = ''YOUR_POSTCODE'',
      country = ''GB'',
      phone = Some ''YOUR_PHONE_NUMBER'',
      email = Some ''YOUR_LOGISTICS_EMAIL''\<rparr>"

definition kgToOunces :: "number \<Rightarrow> number" where
  "kgToOunces kg = kg * 35.274"

definition cmToInches :: "number \<Rightarrow> number" where
  "cmToInches cm = cm * 0.3937"

text \<open>\<open>...(d && {length: this.cmToInches(d)})\<close>: a falsy dimension adds no field.\<close>

definition dimension :: "number option \<Rightarrow> number option" where
  "dimension d = (if truthy_number d then map_option cmToInches d else None)"

definition shipmentParams :: "Services \<Rightarrow> Address \<Rightarrow> Address \<Rightarrow> Parcel \<Rightarrow> ShipmentParams" where
  "shipmentParams env to_a from_a p =
     \<lparr>to_address = to_a,
      from_address = from_a\<lparr>name := Some ''YOUR_COMPANY Logistics''\<rparr>,
      request_parcel =
        \<lparr>weight_oz = kgToOunces (weight_kg p),
         length_in = dimension (length_cm p),
         width_in = dimension (width_cm p),
         height_in = dimension (height_cm p)\<rparr>,
      carrier_accounts =
        (if truthy_string (upsAccountId env) then map_option (\<lambda>a. [a]) (upsAccountId env)
         else None)\<rparr>"

text \<open>
  The destination: \<open>if (options.orderId) ... else if (options.toAddress) ... else throw\<close>.
\<close>

definition destination ::
  "Services \<Rightarrow> World \<Rightarrow> CreateShipmentOptions \<Rightarrow> (error + Address) \<times> World" where
  "destination env w options =
     (case (if truthy_string (opt_orderId options) then opt_orderId options else None) of
        Some oid \<Rightarrow>
          (case fetchShopifyOrderAddress env oid of
             Inl msg \<Rightarrow> (Inl (Error AddressResolution msg), called (GetOrder oid) w)
           | Inr a \<Rightarrow> (Inr a, called (GetOrder oid) w))
      | None \<Rightarrow>
          (case opt_toAddress options of
             Some a \<Rightarrow> (Inr a, w)
           | None \<Rightarrow>
               (Inl (Error MissingDestination ''Either orderId or toAddress must be provided''),
                w)))"

text \<open>
  The filter \<open>!options.carrier || r.carrier?.toLowerCase() === options.carrier.toLowerCase()\<close>.
\<close>

definition carrier_matches :: "string option \<Rightarrow> Rate \<Rightarrow> bool" where
  "carrier_matches wanted r =
     (if \<not> truthy_string wanted then True
      else map_option toLowerCase (carrier r) = map_option toLowerCase wanted)"

text \<open>
  The comparator \<open>parseFloat(a.rate) - parseFloat(b.rate)\<close>, by its sign; a \<open>NaN\<close>
  result counts as zero in \<open>Array.prototype.sort\<close>.
\<close>

definition compare_rates :: "(string \<Rightarrow> number option) \<Rightarrow> Rate \<Rightarrow> Rate \<Rightarrow> int" where
  "compare_rates pf a b =
     (case (pf (rate a), pf (rate b)) of
        (Some x, Some y) \<Rightarrow> (if x < y then - 1 else if y < x then 1 else 0)
      | _ \<Rightarrow> 0)"

text \<open>
  \<open>Array.prototype.sort\<close> is stable. With a comparator that is a consistent ordering
  its result is the one of the stable insertion sort below; with an inconsistent one
  (a \<open>NaN\<close> among the prices) the language leaves the order to the implementation.
\<close>

fun insert_by :: "('a \<Rightarrow> 'a \<Rightarrow> int) \<Rightarrow> 'a \<Rightarrow> 'a list \<Rightarrow> 'a list" where
  "insert_by cmp x [] = [x]"
| "insert_by cmp x (y # ys) = (if cmp x y \<le> 0 then x # y # ys else y # insert_by cmp x ys)"

definition sort_by :: "('a \<Rightarrow> 'a \<Rightarrow> int) \<Rightarrow> 'a list \<Rightarrow> 'a list" where
  "sort_by cmp xs = foldr (insert_by cmp) xs []"

text \<open>
  \<open>(shipment.rates || []).filter(...).map(...).sort(...)\<close>; the \<open>map\<close> copies the
  seven fields of a rate, which are all that a \<open>Rate\<close> of the model has.
\<close>

definition extract_rates :: "Services \<Rightarrow> CreateShipmentOptions \<Rightarrow> ApiShipment \<Rightarrow> Rate list" where
  "extract_rates env options shipment =
     sort_by (compare_rates (parseFloat env))
       (map (\<lambda>r. r)
         (filter (carrier_matches (opt_carrier options))
           (case api_rates shipment of None \<Rightarrow> [] | Some rs \<Rightarrow> rs)))"

definition createShipment ::
  "Services \<Rightarrow> World \<Rightarrow> CreateShipmentOptions \<Rightarrow> (error + PendingShipment) \<times> World" where
  "createShipment env w options =
     (case destination env w options of
        (Inl e, w1) \<Rightarrow> (Inl e, w1)
      | (Inr to_a, w1) \<Rightarrow>
          (let from_a = getFromAddress;
               params = shipmentParams env to_a from_a (opt_parcel options);
               w2 = called (ShipmentCreate params) w1
           in case Shipment_create env params of
                Inl msg \<Rightarrow> (Inl (Error ExternalCall msg), w2)
              | Inr shipment \<Rightarrow>
                  (let rs = extract_rates env options shipment
                   in if rs = [] then
                        (Inl (Error NoRatesAvailable
                           ''No shipping rates available for this shipment. Check addresses and carrier configuration.''),
                         w2)
                      else
                        (let pendingShipment =
                               \<lparr>shipment_id = api_id shipment,
                                createdAt = now env,
                                orderId = opt_orderId options,
                                toAddress = to_a,
                                fromAddress = from_a,
                                parcel = opt_parcel options,
                                rates = rs,
                                status = pending,
                                trackingCode = None,
                                labelUrl = None\<rparr>
                         in case loadState (now env) (state_file w2) of
                              Inl e \<Rightarrow> (Inl e, w2)
                            | Inr st \<Rightarrow>
                                (Inr pendingShipment,
                                 w2\<lparr>state_file := saveState (now env)
                                   (st\<lparr>shipments :=
                                      set_property (shipments st) (api_id shipment)
                                        pendingShipment\<rparr>)\<rparr>)))))"

section \<open>Buying, cancelling, reading rates, voiding\<close>

text \<open>
  What the operations read from the value a lookup yields: an own record has its
  fields; an inherited member of \<open>Object.prototype\<close> has none of them.
\<close>

definition status_of :: "PendingShipment property \<Rightarrow> Status option" where
  "status_of p = (case p of Own s \<Rightarrow> Some (status s) | _ \<Rightarrow> None)"

definition trackingCode_of :: "PendingShipment property \<Rightarrow> string option" where
  "trackingCode_of p = (case p of Own s \<Rightarrow> trackingCode s | _ \<Rightarrow> None)"

definition rates_of :: "PendingShipment property \<Rightarrow> Rate list option" where
  "rates_of p = (case p of Own s \<Rightarrow> Some (rates s) | _ \<Rightarrow> None)"

text \<open>
  The in-place update of the record a lookup found, as the table shows it afterwards:
  an update of an inherited member changes no own property of the table.
\<close>

definition update_found ::
  "(string \<rightharpoonup> PendingShipment) \<Rightarrow> string \<Rightarrow> (PendingShipment \<Rightarrow> PendingShipment)
     \<Rightarrow> (string \<rightharpoonup> PendingShipment)" where
  "update_found obj key f = (case obj key of None \<Rightarrow> obj | Some s \<Rightarrow> obj(key \<mapsto> f s))"

text \<open>
  \<open>buyLabel\<close>. On an inherited member \<open>pendingShipment.rates\<close> is \<open>undefined\<close>
  and the call of \<open>find\<close> on it throws a \<open>TypeError\<close> (its message is shortened
  here).
\<close>

definition buyLabel ::
  "Services \<Rightarrow> World \<Rightarrow> string \<Rightarrow> string \<Rightarrow> (error + PurchasedLabel) \<times> World" where
  "buyLabel env w shipmentId rateId =
     (case loadState (now env) (state_file w) of
        Inl e \<Rightarrow> (Inl e, w)
      | Inr st \<Rightarrow>
          (let pendingShipment = get_property (shipments st) shipmentId
           in if pendingShipment = Undefined then
                (Inl (Error ShipmentNotFound
                   (''Shipment '' @ shipmentId @ '' not found in pending shipments'')), w)
              else if status_of pendingShipment = Some purchased then
                (Inl (Error AlreadyPurchased
                   (''Shipment '' @ shipmentId @ '' already purchased. Tracking: ''
                      @ template (trackingCode_of pendingShipment))), w)
              else
                (case rates_of pendingShipment of
                   None \<Rightarrow>
                     (Inl (Error TypeError ''Cannot read properties of undefined''), w)
                 | Some rs \<Rightarrow>
                     (case find (\<lambda>r. rate_id r = rateId) rs of
                        None \<Rightarrow>
                          (Inl (Error RateNotFound
                             (''Rate '' @ rateId @ '' not found for shipment '' @ shipmentId
                                @ ''. Available rates: '' @ join '', '' (map rate_id rs))), w)
                      | Some r \<Rightarrow>
                          (let w1 = called (ShipmentBuy shipmentId rateId) w
                           in case Shipment_buy env shipmentId rateId of
                                Inl msg \<Rightarrow> (Inl (Error ExternalCall msg), w1)
                              | Inr purchasedShipment \<Rightarrow>
                                  (let label =
                                         \<lparr>label_trackingCode = tracking_code purchasedShipment,
                                          label_labelUrl = label_url purchasedShipment,
                                          label_carrier = carrier r,
                                          label_service = service r,
                                          label_rate = rate r,
                                          label_currency = currency r\<rparr>
                                   in (Inr label,
                                       w1\<lparr>state_file := saveState (now env)
                                         (st\<lparr>shipments :=
                                            update_found (shipments st) shipmentId
                                              (\<lambda>s. s\<lparr>status := purchased,
                                                    trackingCode := Some (label_trackingCode label),
                                                    labelUrl := label_labelUrl label\<rparr>)\<rparr>)\<rparr>)))))))"

text \<open>
  \<open>cancelShipment\<close>. The result is a sum so that an exception would be a value
  \<open>Inl\<close>; the source has no \<open>throw\<close> here.
\<close>

definition cancelShipment :: "Services \<Rightarrow> World \<Rightarrow> string \<Rightarrow> (error + OpResult) \<times> World" where
  "cancelShipment env w shipmentId =
     (case loadState (now env) (state_file w) of
        Inl e \<Rightarrow> (Inl e, w)
      | Inr st \<Rightarrow>
          (let shipment = get_property (shipments st) shipmentId
           in if shipment = Undefined then
                (Inr \<lparr>success = False,
                      message = ''Shipment '' @ shipmentId @ '' not found''\<rparr>, w)
              else if status_of shipment = Some purchased then
                (Inr \<lparr>success = False,
                      message = ''Cannot cancel purchased shipment. Use void-label to request refund.''\<rparr>,
                 w)
              else
                (Inr \<lparr>success = True, message = ''Shipment cancelled. No charges incurred.''\<rparr>,
                 w\<lparr>state_file := saveState (now env)
                   (st\<lparr>shipments := delete_property (shipments st) shipmentId\<rparr>)\<rparr>)))"

text \<open>
  \<open>getRates\<close> returns \<open>shipment.rates\<close>, which is \<open>undefined\<close> (\<open>None\<close>) for an
  inherited member.
\<close>

definition getRates :: "Services \<Rightarrow> World \<Rightarrow> string \<Rightarrow> (error + Rate list option) \<times> World" where
  "getRates env w shipmentId =
     (case loadState (now env) (state_file w) of
        Inl e \<Rightarrow> (Inl e, w)
      | Inr st \<Rightarrow>
          (let shipment = get_property (shipments st) shipmentId
           in if shipment = Undefined then
                (Inl (Error ShipmentNotFound (''Shipment '' @ shipmentId @ '' not found'')), w)
              else (Inr (rates_of shipment), w)))"

text \<open>
  \<open>voidLabel\<close>: the whole body is inside \<open>try\<close>, so an error of the refund call, of
  the load or of the write becomes a result with \<open>success = false\<close>. The write
  happens only when the lookup yields something (\<open>if (state.shipments[shipmentId])\<close>).
\<close>

definition voidLabel :: "Services \<Rightarrow> World \<Rightarrow> string \<Rightarrow> (error + OpResult) \<times> World" where
  "voidLabel env w shipmentId =
     (let w1 = called (ShipmentRefund shipmentId) w
      in case Shipment_refund env shipmentId of
           Inl msg \<Rightarrow> (Inr \<lparr>success = False, message = ''Void failed: '' @ msg\<rparr>, w1)
         | Inr refund \<Rightarrow>
             (case loadState (now env) (state_file w1) of
                Inl (Error k msg) \<Rightarrow>
                  (Inr \<lparr>success = False, message = ''Void failed: '' @ msg\<rparr>, w1)
              | Inr st \<Rightarrow>
                  (let requested =
                         \<lparr>success = True,
                          message = ''Refund requested. Status: ''
                            @ (if truthy_string (refund_status refund)
                               then template (refund_status refund) else ''submitted'')\<rparr>
                   in if get_property (shipments st) shipmentId \<noteq> Undefined then
                        (case write_error env of
                           Some msg \<Rightarrow>
                             (Inr \<lparr>success = False, message = ''Void failed: '' @ msg\<rparr>, w1)
                         | None \<Rightarrow>
                             (Inr requested,
                              w1\<lparr>state_file := saveState (now env)
                                (st\<lparr>shipments :=
                                   update_found (shipments st) shipmentId
                                     (\<lambda>s. s\<lparr>status := voided\<rparr>)\<rparr>)\<rparr>))
                      else (Inr requested, w1))))"

text \<open>
  The operations of the workflow that reach the state file, and a run of one of them.
  (\<open>getShipment\<close> asks the carrier through the cache and \<open>listPending\<close> only
  loads; neither calls \<open>saveState\<close>.)
\<close>

datatype operation =
  CreateShipment CreateShipmentOptions
  | BuyLabel string string
  | CancelShipment string
  | GetRates string
  | VoidLabel string

fun run :: "Services \<Rightarrow> operation \<Rightarrow> World \<Rightarrow> World" where
  "run env (CreateShipment options) w = snd (createShipment env w options)"
| "run env (BuyLabel shipmentId rateId) w = snd (buyLabel env w shipmentId rateId)"
| "run env (CancelShipment shipmentId) w = snd (cancelShipment env w shipmentId)"
| "run env (GetRates shipmentId) w = snd (getRates env w shipmentId)"
| "run env (VoidLabel shipmentId) w = snd (voidLabel env w shipmentId)"

section \<open>A scenario\<close>

text \<open>
  The scenario of the specification: a parcel of 15 kg with no dimensions, bound for an
  address in Great Britain, for which the carrier quotes 15.50 (UPS) and 9.99 (DHL).
\<close>

definition customer_address :: Address where
  "customer_address =
     \<lparr>name = Some ''A Customer'', company = None, street1 = ''1 High Street'',
      street2 = None, city = ''London'', state = Some [], zip_code = ''N1 9GU'',
      country = ''GB'', phone = None, email = None\<rparr>"

definition order_address :: Address where
  "order_address = customer_address\<lparr>street1 := ''2 Station Road'', city := ''Leeds''\<rparr>"

definition ups_rate :: Rate where
  "ups_rate =
     \<lparr>rate_id = ''rate_ups'', carrier = Some ''UPS'', service = ''Express'',
      rate = ''15.50'', currency = ''GBP'', delivery_days = Some 1, delivery_date = None\<rparr>"

definition dhl_rate :: Rate where
  "dhl_rate =
     \<lparr>rate_id = ''rate_dhl'', carrier = Some ''DHL'', service = ''Parcel'',
      rate = ''9.99'', currency = ''GBP'', delivery_days = Some 3, delivery_date = None\<rparr>"

text \<open>What \<open>parseFloat\<close> makes of the two prices.\<close>

definition scenario_parseFloat :: "string \<Rightarrow> number option" where
  "scenario_parseFloat s =
     (if s = ''15.50'' then Some 15.5 else if s = ''9.99'' then Some 9.99 else None)"

definition scenario_services :: Services where
  "scenario_services =
     \<lparr>now = ''2026-01-01T00:00:00.000Z'',
      upsAccountId = None,
      parseFloat = scenario_parseFloat,
      fetchShopifyOrderAddress = (\<lambda>oid. Inr order_address),
      Shipment_create = (\<lambda>p. Inr \<lparr>api_id = ''shp_1'', api_rates = Some [ups_rate, dhl_rate]\<rparr>),
      Shipment_buy =
        (\<lambda>s r. Inr \<lparr>tracking_code = ''1Z999'', label_url = Some ''https://labels/1Z999''\<rparr>),
      Shipment_refund = (\<lambda>s. Inr \<lparr>refund_status = Some ''submitted''\<rparr>),
      write_error = None\<rparr>"

text \<open>The same services with a refund call that throws.\<close>

definition refusing_services :: Services where
  "refusing_services = scenario_services\<lparr>Shipment_refund := (\<lambda>s. Inl ''refund refused'')\<rparr>"

text \<open>The same services with a state file that may not be written.\<close>

definition unwritable_services :: Services where
  "unwritable_services =
     scenario_services\<lparr>write_error := Some ''EACCES: permission denied''\<rparr>"

definition scenario_parcel :: Parcel where
  "scenario_parcel = \<lparr>length_cm = None, width_cm = None, height_cm = None, weight_kg = 15\<rparr>"

definition boxed_parcel :: Parcel where
  "boxed_parcel = \<lparr>length_cm = Some 30, width_cm = Some 20, height_cm = None, weight_kg = 2\<rparr>"

definition scenario_options :: CreateShipmentOptions where
  "scenario_options =
     \<lparr>opt_orderId = None, opt_toAddress = Some customer_address,
      opt_parcel = scenario_parcel, opt_carrier = None\<rparr>"

definition pending_record :: PendingShipment where
  "pending_record =
     \<lparr>shipment_id = ''shp_1'', createdAt = ''2026-01-01T00:00:00.000Z'', orderId = None,
      toAddress = customer_address, fromAddress = getFromAddress, parcel = scenario_parcel,
      rates = [dhl_rate, ups_rate], status = pending, trackingCode = None,
      labelUrl = None\<rparr>"

definition purchased_record :: PendingShipment where
  "purchased_record =
     pending_record\<lparr>status := purchased, trackingCode := Some ''1Z999'',
       labelUrl := Some ''https://labels/1Z999''\<rparr>"

definition no_file :: World where
  "no_file = \<lparr>state_file = Absent, calls = []\<rparr>"

definition world_with :: "PendingShipment \<Rightarrow> World" where
  "world_with r =
     \<lparr>state_file =
        Readable (Json \<lparr>shipments = [shipment_id r \<mapsto> r],
                        lastUpdated = ''2026-01-01T00:00:00.000Z''\<rparr>),
      calls = []\<rparr>"

definition voided_record :: PendingShipment where
  "voided_record = purchased_record\<lparr>status := voided\<rparr>"

text \<open>Services whose next shipment gets a new identifier.\<close>

definition later_services :: Services where
  "later_services =
     scenario_services\<lparr>Shipment_create :=
       (\<lambda>p. Inr \<lparr>api_id = ''shp_2'', api_rates = Some [ups_rate, dhl_rate]\<rparr>)\<rparr>"

section \<open>Auxiliary facts\<close>

text \<open>Sorting: the sort keeps the elements and, when every price is a number, orders them.\<close>

lemma set_insert_by: "set (insert_by cmp x xs) = insert x (set xs)"
  by (induction xs) auto

lemma set_sort_by: "set (sort_by cmp xs) = set xs"
  by (induction xs) (auto simp: sort_by_def set_insert_by)

lemma sort_by_Nil: "sort_by cmp xs = [] \<longleftrightarrow> xs = []"
  using set_sort_by [of cmp xs] by (metis set_empty)

lemma compare_rates_le:
  "pf (rate a) = Some x \<Longrightarrow> pf (rate b) = Some y \<Longrightarrow> (compare_rates pf a b \<le> 0) = (x \<le> y)"
  by (auto simp: compare_rates_def)

lemma insert_by_insort:
  assumes "pf (rate x) \<noteq> None" and "\<forall>y\<in>set ys. pf (rate y) \<noteq> None"
  shows "insert_by (compare_rates pf) x ys = insort_key (\<lambda>r. the (pf (rate r))) x ys"
  using assms
proof (induction ys)
  case Nil
  then show ?case by simp
next
  case (Cons y ys)
  from Cons.prems obtain vx vy where v: "pf (rate x) = Some vx" "pf (rate y) = Some vy"
    by auto
  show ?case
    using Cons v compare_rates_le [OF v] by simp
qed

lemma sort_by_sort_key:
  assumes "\<forall>y\<in>set xs. pf (rate y) \<noteq> None"
  shows "sort_by (compare_rates pf) xs = sort_key (\<lambda>r. the (pf (rate r))) xs"
  using assms
proof (induction xs)
  case Nil
  then show ?case by (simp add: sort_by_def)
next
  case (Cons x xs)
  then have "sort_by (compare_rates pf) xs = sort_key (\<lambda>r. the (pf (rate r))) xs" by simp
  moreover have "\<forall>y\<in>set (sort_by (compare_rates pf) xs). pf (rate y) \<noteq> None"
    using Cons.prems by (simp add: set_sort_by)
  ultimately show ?case
    using Cons.prems insert_by_insort [of pf x "sort_by (compare_rates pf) xs"]
    by (simp add: sort_by_def)
qed

lemma sort_by_sorted:
  assumes "\<forall>y\<in>set xs. pf (rate y) \<noteq> None"
  shows "\<exists>vs. map (\<lambda>r. pf (rate r)) (sort_by (compare_rates pf) xs) = map Some vs \<and> sorted vs"
proof -
  let ?k = "\<lambda>r. the (pf (rate r))"
  let ?ys = "sort_by (compare_rates pf) xs"
  have "\<forall>y\<in>set ?ys. pf (rate y) \<noteq> None"
    using assms by (simp add: set_sort_by)
  then have "map (\<lambda>r. pf (rate r)) ?ys = map Some (map ?k ?ys)"
    by auto
  moreover have "sorted (map ?k ?ys)"
    by (simp add: sort_by_sort_key [OF assms])
  ultimately show ?thesis by blast
qed

text \<open>Loading, saving and the world.\<close>

lemma loadState_never_Inl: "loadState t f \<noteq> Inl e"
  by (auto simp: loadState_def split: sum.splits)

lemma loadState_stored:
  "loadState t (state_file w) = Inr st \<Longrightarrow> shipments st = stored_shipments w"
  by (auto simp: loadState_def stored_shipments_def empty_state_def split: sum.splits if_splits)

lemma stored_saveState:
  "state_file w' = saveState t st \<Longrightarrow> stored_shipments w' = shipments st"
  by (simp add: stored_shipments_def saveState_def loadState_def existsSync_def
      readFileSync_def JSON_parse_def)

lemma stored_called [simp]: "stored_shipments (called c w) = stored_shipments w"
  by (simp add: stored_shipments_def called_def)

lemma state_file_called [simp]: "state_file (called c w) = state_file w"
  by (simp add: called_def)

lemma calls_called [simp]: "calls (called c w) = calls w @ [c]"
  by (simp add: called_def)

lemma destination_state_file:
  "destination env w options = (r, w1) \<Longrightarrow> state_file w1 = state_file w"
  by (auto simp: destination_def split: option.splits sum.splits if_splits)

lemma saveState_shipments:
  "saveState t (st\<lparr>shipments := m\<rparr>) = Readable (Json \<lparr>shipments = m, lastUpdated = t\<rparr>)"
  by (cases st) (simp add: saveState_def)

text \<open>The course of \<open>createShipment\<close>.\<close>

lemma createShipment_Inr:
  assumes "createShipment env w options = (Inr ps, w')"
  shows "\<exists>a w1 shipment.
           destination env w options = (Inr a, w1) \<and>
           Shipment_create env (shipmentParams env a getFromAddress (opt_parcel options)) = Inr shipment \<and>
           extract_rates env options shipment \<noteq> [] \<and>
           ps = \<lparr>shipment_id = api_id shipment, createdAt = now env, orderId = opt_orderId options,
                 toAddress = a, fromAddress = getFromAddress, parcel = opt_parcel options,
                 rates = extract_rates env options shipment, status = pending,
                 trackingCode = None, labelUrl = None\<rparr>"
  using assms
  by (auto simp: createShipment_def Let_def split: prod.splits sum.splits if_splits)

lemma carrier_matches_given:
  "c \<noteq> [] \<Longrightarrow>
   carrier_matches (Some c) r =
     (case carrier r of None \<Rightarrow> False | Some n \<Rightarrow> toLowerCase n = toLowerCase c)"
  by (simp add: carrier_matches_def truthy_string_def split: option.splits)

lemma createShipment_after_create:
  assumes "destination env w options = (Inr a, w1)"
    and "Shipment_create env (shipmentParams env a getFromAddress (opt_parcel options)) = Inr shipment"
  shows "createShipment env w options =
     (let w2 = called (ShipmentCreate (shipmentParams env a getFromAddress (opt_parcel options))) w1;
          rs = extract_rates env options shipment;
          ps = \<lparr>shipment_id = api_id shipment, createdAt = now env, orderId = opt_orderId options,
                 toAddress = a, fromAddress = getFromAddress, parcel = opt_parcel options,
                 rates = rs, status = pending, trackingCode = None, labelUrl = None\<rparr>
      in if rs = [] then
           (Inl (Error NoRatesAvailable
              ''No shipping rates available for this shipment. Check addresses and carrier configuration.''),
            w2)
         else
           (Inr ps,
            w2\<lparr>state_file := Readable (Json
              \<lparr>shipments = set_property (stored_shipments w) (api_id shipment) ps,
               lastUpdated = now env\<rparr>)\<rparr>))"
proof -
  obtain st where st: "loadState (now env) (state_file w1) = Inr st"
    using loadState_never_Inl [of "now env" "state_file w1"] by (cases "loadState (now env) (state_file w1)") auto
  have f: "state_file w1 = state_file w"
    using assms(1) by (rule destination_state_file)
  have s: "shipments st = stored_shipments w"
    using st f loadState_stored [of "now env" w st] by simp
  show ?thesis
    using assms st s f
    by (simp add: createShipment_def Let_def saveState_shipments)
qed

lemma dimension_nonzero: "d \<noteq> Some 0 \<Longrightarrow> dimension d = map_option (\<lambda>cm. cm * 0.3937) d"
  by (cases d) (simp_all add: dimension_def truthy_number_def cmToInches_def)

lemma createShipment_calls:
  assumes "destination env w options = (Inr a, w1)"
  shows "calls (snd (createShipment env w options)) =
           calls w1 @ [ShipmentCreate (shipmentParams env a getFromAddress (opt_parcel options))]"
  using assms loadState_never_Inl
  by (auto simp: createShipment_def Let_def called_def split: sum.splits)

text \<open>Evaluating the scenario.\<close>

lemmas scenario_defs = scenario_services_def scenario_options_def scenario_parcel_def
  pending_record_def purchased_record_def no_file_def world_with_def ups_rate_def dhl_rate_def
  scenario_parseFloat_def refusing_services_def

lemmas createShipment_eval = createShipment_def destination_def truthy_string_def extract_rates_def
      carrier_matches_def sort_by_def compare_rates_def shipmentParams_def Let_def
      loadState_def existsSync_def scenario_defs called_def saveState_def
      readFileSync_def JSON_parse_def set_property_def empty_state_def

lemma lower_UPS: "toLowerCase ''UPS'' = ''ups''" by code_simp
lemma lower_DHL: "toLowerCase ''DHL'' = ''dhl''" by code_simp
lemma lower_ups: "toLowerCase ''ups'' = ''ups''" by code_simp
lemma lower_FedEx: "toLowerCase ''FedEx'' = ''fedex''" by code_simp

lemma scenario_created: "fst (createShipment scenario_services no_file scenario_options) = Inr pending_record"
  by (simp add: createShipment_def destination_def truthy_string_def extract_rates_def
      carrier_matches_def sort_by_def compare_rates_def shipmentParams_def Let_def
      loadState_def existsSync_def scenario_defs called_def)

lemma scenario_stored: "stored_shipments (snd (createShipment scenario_services no_file scenario_options)) ''shp_1'' = Some pending_record"
  by (simp add: createShipment_def destination_def truthy_string_def extract_rates_def
      carrier_matches_def sort_by_def compare_rates_def shipmentParams_def Let_def
      loadState_def existsSync_def scenario_defs called_def stored_shipments_def saveState_def
      readFileSync_def JSON_parse_def set_property_def empty_state_def)

text \<open>The operations on a stored record.\<close>

lemma loadState_obtain:
  obtains st where "loadState t (state_file w) = Inr st" and "shipments st = stored_shipments w"
proof -
  obtain st where st: "loadState t (state_file w) = Inr st"
    using loadState_never_Inl [of t "state_file w"] by (cases "loadState t (state_file w)") auto
  with loadState_stored [OF st] that show ?thesis by blast
qed

lemma get_property_own: "obj key = Some v \<Longrightarrow> get_property obj key = Own v"
  by (simp add: get_property_def)

lemma stored_after_save:
  "stored_shipments (w\<lparr>state_file := saveState t (st\<lparr>shipments := m\<rparr>)\<rparr>) = m"
  by (simp add: stored_saveState [of _ t "st\<lparr>shipments := m\<rparr>"])

lemma buyLabel_purchased:
  assumes "stored_shipments w sid = Some r" and "status r = purchased"
  shows "buyLabel env w sid rid =
           (Inl (Error AlreadyPurchased
              (''Shipment '' @ sid @ '' already purchased. Tracking: '' @ template (trackingCode r))),
            w)"
proof -
  obtain st where "loadState (now env) (state_file w) = Inr st" "shipments st = stored_shipments w"
    by (rule loadState_obtain)
  with assms show ?thesis
    by (simp add: buyLabel_def get_property_own status_of_def trackingCode_of_def)
qed

lemma buyLabel_Inr:
  assumes "buyLabel env w sid rid = (Inr label, w')"
  shows "\<exists>r. stored_shipments w sid = Some r \<and> status r \<noteq> purchased \<and>
              stored_shipments w' sid =
                Some (r\<lparr>status := purchased, trackingCode := Some (label_trackingCode label),
                       labelUrl := label_labelUrl label\<rparr>)"
proof -
  obtain st where st: "loadState (now env) (state_file w) = Inr st" "shipments st = stored_shipments w"
    by (rule loadState_obtain)
  show ?thesis
  proof (cases "stored_shipments w sid")
    case None
    with assms st show ?thesis
      by (auto simp: buyLabel_def get_property_def status_of_def rates_of_def Let_def
          split: if_splits)
  next
    case (Some r)
    with assms st show ?thesis
      by (auto simp: buyLabel_def get_property_own status_of_def rates_of_def Let_def
          update_found_def stored_after_save
          split: if_splits option.splits sum.splits)
  qed
qed

lemma find_None_rate:
  "rid \<notin> rate_id ` set rs \<Longrightarrow> find (\<lambda>r. rate_id r = rid) rs = None"
  by (auto simp: find_None_iff)

lemma stored_readable:
  "stored_shipments (w\<lparr>state_file := Readable (Json \<lparr>shipments = m, lastUpdated = t\<rparr>)\<rparr>) = m"
  by (simp add: stored_shipments_def loadState_def existsSync_def readFileSync_def JSON_parse_def)

lemma voidLabel_failed:
  assumes "Shipment_refund env sid = Inl msg"
  shows "voidLabel env w sid =
           (Inr \<lparr>success = False, message = ''Void failed: '' @ msg\<rparr>, called (ShipmentRefund sid) w)"
  using assms by (simp add: voidLabel_def Let_def)


lemma voidLabel_record:
  assumes "Shipment_refund env sid = Inr refund"
    and "stored_shipments w sid = Some r"
  shows "voidLabel env w sid =
     (case write_error env of
        Some e \<Rightarrow>
          (Inr \<lparr>success = False, message = ''Void failed: '' @ e\<rparr>, called (ShipmentRefund sid) w)
      | None \<Rightarrow>
          (Inr \<lparr>success = True,
                message = ''Refund requested. Status: ''
                  @ (if truthy_string (refund_status refund)
                     then template (refund_status refund) else ''submitted'')\<rparr>,
           called (ShipmentRefund sid) w
             \<lparr>state_file := saveState (now env)
                \<lparr>shipments = (stored_shipments w)(sid \<mapsto> r\<lparr>status := voided\<rparr>),
                 lastUpdated = now env\<rparr>\<rparr>))"
proof -
  obtain st where st: "loadState (now env) (state_file w) = Inr st"
    "shipments st = stored_shipments w"
    by (rule loadState_obtain)
  have "saveState (now env) (st\<lparr>shipments := m\<rparr>) =
        saveState (now env) \<lparr>shipments = m, lastUpdated = now env\<rparr>" for m
    by (simp add: saveState_shipments saveState_def)
  with assms st show ?thesis
    by (simp add: voidLabel_def Let_def get_property_own update_found_def split: option.splits)
qed


lemma voidLabel_stored:
  "stored_shipments (snd (voidLabel env w sid)) = stored_shipments w \<or>
   (\<exists>r. stored_shipments w sid = Some r \<and>
        stored_shipments (snd (voidLabel env w sid)) = (stored_shipments w)(sid \<mapsto> r\<lparr>status := voided\<rparr>))"
proof (cases "Shipment_refund env sid")
  case (Inl msg)
  from voidLabel_failed [OF Inl, of w] show ?thesis by simp
next
  case (Inr refund)
  show ?thesis
  proof (cases "stored_shipments w sid")
    case None
    obtain st where st: "loadState (now env) (state_file w) = Inr st"
      "shipments st = stored_shipments w"
      by (rule loadState_obtain)
    with Inr None have "stored_shipments (snd (voidLabel env w sid)) = stored_shipments w"
      by (simp add: voidLabel_def Let_def get_property_def update_found_def stored_after_save
          split: option.splits)
    then show ?thesis ..
  next
    case (Some r)
    from voidLabel_record [OF Inr Some] Some show ?thesis
      by (cases "write_error env") (simp_all add: stored_saveState [of _ "now env"])
  qed
qed

lemma createShipment_stored:
  assumes "\<forall>p s. Shipment_create env p = Inr s \<longrightarrow> api_id s \<noteq> k"
  shows "stored_shipments (snd (createShipment env w options)) k = stored_shipments w k"
proof -
  obtain res w' where c: "createShipment env w options = (res, w')"
    by (cases "createShipment env w options")
  obtain d w1 where d: "destination env w options = (d, w1)"
    by (cases "destination env w options")
  have f: "state_file w1 = state_file w"
    using d by (rule destination_state_file)
  show ?thesis
  proof (cases d)
    case (Inl e)
    with d f show ?thesis
      by (simp add: createShipment_def stored_shipments_def)
  next
    case (Inr a)
    let ?params = "shipmentParams env a getFromAddress (opt_parcel options)"
    show ?thesis
    proof (cases "Shipment_create env ?params")
      case (Inl msg)
      with d Inr f show ?thesis
        by (simp add: createShipment_def Let_def stored_shipments_def)
    next
      case create: (Inr shipment)
      with assms have k: "api_id shipment \<noteq> k" by blast
      show ?thesis
      proof (cases "extract_rates env options shipment = []")
        case True
        then show ?thesis
          using createShipment_after_create [OF d [unfolded Inr] create] f
          by (simp add: Let_def stored_shipments_def)
      next
        case False
        then show ?thesis
          using createShipment_after_create [OF d [unfolded Inr] create] k
          by (simp add: Let_def stored_readable set_property_def)
      qed
    qed
  qed
qed

lemma buyLabel_stored:
  "stored_shipments (snd (buyLabel env w sid rid)) = stored_shipments w \<or>
   (\<exists>label. buyLabel env w sid rid = (Inr label, snd (buyLabel env w sid rid)))"
proof -
  obtain st where st: "loadState (now env) (state_file w) = Inr st"
    by (rule loadState_obtain)
  show ?thesis
  proof (cases "fst (buyLabel env w sid rid)")
    case (Inl e)
    then have "state_file (snd (buyLabel env w sid rid)) = state_file w"
      using st
      by (auto simp: buyLabel_def Let_def split: if_splits option.splits sum.splits)
    then show ?thesis by (simp add: stored_shipments_def)
  next
    case (Inr label)
    then show ?thesis by (simp add: prod_eq_iff)
  qed
qed

lemma cancelShipment_other:
  "k \<noteq> sid \<Longrightarrow> stored_shipments (snd (cancelShipment env w sid)) k = stored_shipments w k"
proof -
  assume k: "k \<noteq> sid"
  obtain st where st: "loadState (now env) (state_file w) = Inr st"
    "shipments st = stored_shipments w"
    by (rule loadState_obtain)
  with k show ?thesis
    by (simp add: cancelShipment_def Let_def stored_after_save delete_property_def)
qed

text \<open>
  \<open>cancelShipment\<close>, case by case; identifiers that name a member of
  \<open>Object.prototype\<close> are set apart.
\<close>

lemma cancelShipment_never_raises: "\<exists>res. fst (cancelShipment env w sid) = Inr res"
proof -
  obtain st where "loadState (now env) (state_file w) = Inr st"
    by (rule loadState_obtain)
  then show ?thesis
    by (simp add: cancelShipment_def Let_def)
qed

lemma cancelShipment_missing:
  assumes "stored_shipments w sid = None" and "sid \<notin> set object_prototype_keys"
  shows "cancelShipment env w sid =
           (Inr \<lparr>success = False, message = ''Shipment '' @ sid @ '' not found''\<rparr>, w)"
proof -
  obtain st where "loadState (now env) (state_file w) = Inr st" "shipments st = stored_shipments w"
    by (rule loadState_obtain)
  with assms show ?thesis
    by (simp add: cancelShipment_def get_property_def)
qed

lemma cancelShipment_purchased:
  assumes "stored_shipments w sid = Some r" and "status r = purchased"
  shows "cancelShipment env w sid =
           (Inr \<lparr>success = False,
                 message = ''Cannot cancel purchased shipment. Use void-label to request refund.''\<rparr>,
            w)"
proof -
  obtain st where "loadState (now env) (state_file w) = Inr st" "shipments st = stored_shipments w"
    by (rule loadState_obtain)
  with assms show ?thesis
    by (simp add: cancelShipment_def get_property_own status_of_def)
qed

lemma cancelShipment_unpurchased:
  assumes "stored_shipments w sid = Some r" and "status r \<noteq> purchased"
  shows "fst (cancelShipment env w sid) =
           Inr \<lparr>success = True, message = ''Shipment cancelled. No charges incurred.''\<rparr> \<and>
         stored_shipments (snd (cancelShipment env w sid)) = (stored_shipments w)(sid := None)"
proof -
  obtain st where "loadState (now env) (state_file w) = Inr st" "shipments st = stored_shipments w"
    by (rule loadState_obtain)
  with assms show ?thesis
    by (simp add: cancelShipment_def get_property_own status_of_def stored_after_save
        delete_property_def)
qed

lemma getRates_missing:
  assumes "stored_shipments w sid = None" and "sid \<notin> set object_prototype_keys"
  shows "fst (getRates env w sid) = Inl (Error ShipmentNotFound (''Shipment '' @ sid @ '' not found''))"
proof -
  obtain st where "loadState (now env) (state_file w) = Inr st" "shipments st = stored_shipments w"
    by (rule loadState_obtain)
  with assms show ?thesis
    by (simp add: getRates_def get_property_def)
qed

lemma cancel_then_getRates:
  assumes "stored_shipments w sid = Some r" and "status r = pending"
    and "sid \<notin> set object_prototype_keys"
  shows "fst (getRates env' (snd (cancelShipment env w sid)) sid) =
           Inl (Error ShipmentNotFound (''Shipment '' @ sid @ '' not found''))"
proof -
  have "stored_shipments (snd (cancelShipment env w sid)) sid = None"
    using cancelShipment_unpurchased [OF assms(1), of env] assms(2) by simp
  from getRates_missing [OF this assms(3)] show ?thesis .
qed

text \<open>Evaluating the operations in the scenario.\<close>

lemmas operation_eval = buyLabel_def cancelShipment_def voidLabel_def getRates_def
  get_property_def status_of_def trackingCode_of_def rates_of_def update_found_def
  delete_property_def template_def Let_def called_def loadState_def existsSync_def
  readFileSync_def JSON_parse_def saveState_def empty_state_def stored_shipments_def
  truthy_string_def object_prototype_keys_def

lemma stored_world_with: "stored_shipments (world_with r) = [shipment_id r \<mapsto> r]"
  by (simp add: stored_shipments_def world_with_def loadState_def existsSync_def
      readFileSync_def JSON_parse_def)

lemma stored_no_file: "stored_shipments no_file = Map.empty"
  by (simp add: stored_shipments_def no_file_def loadState_def existsSync_def empty_state_def)

lemmas scenario_defs2 = scenario_defs voided_record_def later_services_def unwritable_services_def

section \<open>Loading the state\<close>

text \<open>
  C9. \<open>loadState\<close> returns a state for every condition of the backing file and never
  passes an error on; when the file is absent, cannot be read or does not parse, the
  state it returns has an empty shipment table.
\<close>

theorem loadState_total:
  "(\<exists>st. loadState t f = Inr st) \<and>
   (f = Absent \<or> f = Unreadable \<or> f = Readable Garbage
      \<longrightarrow> loadState t f = Inr (empty_state t) \<and> shipments (empty_state t) = Map.empty)"
  by (auto simp: loadState_def existsSync_def readFileSync_def JSON_parse_def empty_state_def
      split: backing_file.splits file_contents.splits)

theorem loadState_total_witness:
  "loadState ''2026-01-01'' (Readable Garbage) = Inr (empty_state ''2026-01-01'') \<and>
   loadState ''2026-01-01'' Absent = Inr (empty_state ''2026-01-01'') \<and>
   loadState ''2026-01-01'' Unreadable = Inr (empty_state ''2026-01-01'')"
  using loadState_total [of "''2026-01-01''" "Readable Garbage"]
    loadState_total [of "''2026-01-01''" Absent]
    loadState_total [of "''2026-01-01''" Unreadable]
  by simp

section \<open>Creating a shipment: rates, units, destination\<close>

text \<open>
  C2. When \<open>createShipment\<close> succeeds, the record it returns has status
  \<open>pending\<close>, its list of rates is not empty and, the price of every rate being a
  number for \<open>parseFloat\<close>, the parsed prices are in ascending order.
\<close>

theorem createShipment_pending_sorted:
  assumes "createShipment env w options = (Inr ps, w')"
    and "\<forall>r\<in>set (rates ps). parseFloat env (rate r) \<noteq> None"
  shows "status ps = pending \<and> rates ps \<noteq> [] \<and>
         (\<exists>vs. map (\<lambda>r. parseFloat env (rate r)) (rates ps) = map Some vs \<and> sorted vs)"
proof -
  from createShipment_Inr [OF assms(1)] obtain shipment where
    nonempty: "extract_rates env options shipment \<noteq> []" and
    st: "status ps = pending" and
    rs: "rates ps = extract_rates env options shipment"
    by auto
  let ?kept = "filter (carrier_matches (opt_carrier options))
                 (case api_rates shipment of None \<Rightarrow> [] | Some rs \<Rightarrow> rs)"
  have eq: "rates ps = sort_by (compare_rates (parseFloat env)) ?kept"
    by (simp add: rs extract_rates_def)
  then have "set ?kept = set (rates ps)"
    by (simp add: set_sort_by)
  with assms(2) have "\<forall>r\<in>set ?kept. parseFloat env (rate r) \<noteq> None"
    by simp
  from sort_by_sorted [OF this] eq nonempty rs st show ?thesis
    by simp
qed

theorem createShipment_pending_sorted_witness:
  "status pending_record = pending \<and> rates pending_record \<noteq> [] \<and>
   (\<exists>vs. map (\<lambda>r. parseFloat scenario_services (rate r)) (rates pending_record) = map Some vs
      \<and> sorted vs)"
proof -
  have run: "createShipment scenario_services no_file scenario_options =
      (Inr pending_record, snd (createShipment scenario_services no_file scenario_options))"
    using scenario_created by (simp add: prod_eq_iff)
  have prices: "\<forall>r\<in>set (rates pending_record). parseFloat scenario_services (rate r) \<noteq> None"
    by (simp add: scenario_defs del: not_None_eq)
  from createShipment_pending_sorted [OF run prices] show ?thesis .
qed

text \<open>
  C3, as amended. When the carrier filter is a non-empty string and the carrier API has
  answered, the rates kept are those whose carrier equals the filter up to the case of
  the letters, and the filter is applied before the sort. If no rate is kept (the API
  returned none, or none matches) the call fails with the no-rates error and the state
  file is the one before the call; otherwise the record returned holds the kept rates,
  sorted.
\<close>

theorem createShipment_carrier_filter:
  assumes "opt_carrier options = Some c" and "c \<noteq> []"
    and "destination env w options = (Inr a, w1)"
    and "Shipment_create env (shipmentParams env a getFromAddress (opt_parcel options)) = Inr shipment"
    and "kept = filter (\<lambda>r. case carrier r of None \<Rightarrow> False | Some n \<Rightarrow> toLowerCase n = toLowerCase c)
                  (case api_rates shipment of None \<Rightarrow> [] | Some rs \<Rightarrow> rs)"
  shows "if kept = [] then
           (\<exists>msg. fst (createShipment env w options) = Inl (Error NoRatesAvailable msg)) \<and>
           state_file (snd (createShipment env w options)) = state_file w
         else
           (\<exists>ps. fst (createShipment env w options) = Inr ps \<and>
                 rates ps = sort_by (compare_rates (parseFloat env)) kept)"
proof -
  have "carrier_matches (opt_carrier options) =
          (\<lambda>r. case carrier r of None \<Rightarrow> False | Some n \<Rightarrow> toLowerCase n = toLowerCase c)"
    using assms(1,2) by (simp add: carrier_matches_given fun_eq_iff)
  then have rs: "extract_rates env options shipment = sort_by (compare_rates (parseFloat env)) kept"
    by (simp add: extract_rates_def assms(5))
  have f: "state_file w1 = state_file w"
    using assms(3) by (rule destination_state_file)
  show ?thesis
    using createShipment_after_create [OF assms(3,4)] rs f
    by (simp add: Let_def sort_by_Nil)
qed

theorem createShipment_carrier_filter_witness:
  "(\<exists>ps. fst (createShipment scenario_services no_file (scenario_options\<lparr>opt_carrier := Some ''ups''\<rparr>))
           = Inr ps \<and> rates ps = [ups_rate]) \<and>
   (\<exists>msg. fst (createShipment scenario_services no_file (scenario_options\<lparr>opt_carrier := Some ''FedEx''\<rparr>))
           = Inl (Error NoRatesAvailable msg)) \<and>
   state_file (snd (createShipment scenario_services no_file
     (scenario_options\<lparr>opt_carrier := Some ''FedEx''\<rparr>))) = Absent"
proof -
  let ?ups = "scenario_options\<lparr>opt_carrier := Some ''ups''\<rparr>"
  let ?fedex = "scenario_options\<lparr>opt_carrier := Some ''FedEx''\<rparr>"
  let ?shipment = "\<lparr>api_id = ''shp_1'', api_rates = Some [ups_rate, dhl_rate]\<rparr>"
  have d1: "destination scenario_services no_file ?ups = (Inr customer_address, no_file)"
    by (simp add: destination_def truthy_string_def scenario_options_def)
  have d2: "destination scenario_services no_file ?fedex = (Inr customer_address, no_file)"
    by (simp add: destination_def truthy_string_def scenario_options_def)
  have c1: "Shipment_create scenario_services
      (shipmentParams scenario_services customer_address getFromAddress (opt_parcel ?ups)) = Inr ?shipment"
    by (simp add: scenario_services_def)
  have c2: "Shipment_create scenario_services
      (shipmentParams scenario_services customer_address getFromAddress (opt_parcel ?fedex)) = Inr ?shipment"
    by (simp add: scenario_services_def)
  have k1: "[ups_rate] = filter (\<lambda>r. case carrier r of None \<Rightarrow> False
                | Some n \<Rightarrow> toLowerCase n = toLowerCase ''ups'')
              (case api_rates ?shipment of None \<Rightarrow> [] | Some rs \<Rightarrow> rs)"
    by (simp add: ups_rate_def dhl_rate_def lower_UPS lower_DHL lower_ups)
  have k2: "[] = filter (\<lambda>r. case carrier r of None \<Rightarrow> False
                | Some n \<Rightarrow> toLowerCase n = toLowerCase ''FedEx'')
              (case api_rates ?shipment of None \<Rightarrow> [] | Some rs \<Rightarrow> rs)"
    by (simp add: ups_rate_def dhl_rate_def lower_UPS lower_DHL lower_FedEx)
  have o1: "opt_carrier ?ups = Some ''ups''" and o2: "opt_carrier ?fedex = Some ''FedEx''"
    by simp_all
  have n1: "''ups'' \<noteq> []" and n2: "''FedEx'' \<noteq> []" by simp_all
  show ?thesis
    using createShipment_carrier_filter [OF o1 n1 d1 c1 k1]
      createShipment_carrier_filter [OF o2 n2 d2 c2 k2]
    by (simp add: sort_by_def no_file_def)
qed

text \<open>
  As C3 is stated it fails on a filter that is the empty string: the source tests
  \<open>!options.carrier\<close>, so no rate is filtered out and the call succeeds with the
  rates of both carriers.
\<close>

theorem createShipment_empty_carrier_counterexample:
  "opt_carrier (scenario_options\<lparr>opt_carrier := Some []\<rparr>) = Some [] \<and>
   fst (createShipment scenario_services no_file (scenario_options\<lparr>opt_carrier := Some []\<rparr>))
     = Inr pending_record \<and>
   map carrier (rates pending_record) = [Some ''DHL'', Some ''UPS'']"
  by (simp add: createShipment_eval)

text \<open>
  C8. The parcel sent to the carrier API has the weight in kg times 35.274 and every
  dimension that is present (and not zero: the data model has positive dimensions) in cm
  times 0.3937; the record returned and written to the store keeps the caller's parcel
  as it was given.
\<close>

theorem createShipment_units:
  assumes "createShipment env w options = (res, w')"
    and "destination env w options = (Inr a, w1)"
    and "length_cm (opt_parcel options) \<noteq> Some 0"
    and "width_cm (opt_parcel options) \<noteq> Some 0"
    and "height_cm (opt_parcel options) \<noteq> Some 0"
  shows "\<exists>params.
           calls w' = calls w1 @ [ShipmentCreate params] \<and>
           request_parcel params =
             \<lparr>weight_oz = weight_kg (opt_parcel options) * 35.274,
              length_in = map_option (\<lambda>cm. cm * 0.3937) (length_cm (opt_parcel options)),
              width_in = map_option (\<lambda>cm. cm * 0.3937) (width_cm (opt_parcel options)),
              height_in = map_option (\<lambda>cm. cm * 0.3937) (height_cm (opt_parcel options))\<rparr> \<and>
           (\<forall>ps. res = Inr ps \<longrightarrow>
              parcel ps = opt_parcel options \<and>
              stored_shipments w' = set_property (stored_shipments w) (shipment_id ps) ps)"
proof -
  let ?params = "shipmentParams env a getFromAddress (opt_parcel options)"
  have sent: "calls w' = calls w1 @ [ShipmentCreate ?params]"
    using createShipment_calls [OF assms(2)] assms(1) by simp
  have conv: "request_parcel ?params =
             \<lparr>weight_oz = weight_kg (opt_parcel options) * 35.274,
              length_in = map_option (\<lambda>cm. cm * 0.3937) (length_cm (opt_parcel options)),
              width_in = map_option (\<lambda>cm. cm * 0.3937) (width_cm (opt_parcel options)),
              height_in = map_option (\<lambda>cm. cm * 0.3937) (height_cm (opt_parcel options))\<rparr>"
    using assms(3-5) by (simp add: shipmentParams_def kgToOunces_def dimension_nonzero)
  have kept: "parcel ps = opt_parcel options \<and>
              stored_shipments w' = set_property (stored_shipments w) (shipment_id ps) ps"
    if "res = Inr ps" for ps
  proof -
    from createShipment_Inr that assms(1) obtain shipment where
      c: "Shipment_create env ?params = Inr shipment" and
      ne: "extract_rates env options shipment \<noteq> []" and
      ps: "ps = \<lparr>shipment_id = api_id shipment, createdAt = now env, orderId = opt_orderId options,
                 toAddress = a, fromAddress = getFromAddress, parcel = opt_parcel options,
                 rates = extract_rates env options shipment, status = pending,
                 trackingCode = None, labelUrl = None\<rparr>"
      using assms(2) by fastforce
    have "state_file w' = Readable (Json \<lparr>shipments = set_property (stored_shipments w) (api_id shipment) ps,
               lastUpdated = now env\<rparr>)"
      using createShipment_after_create [OF assms(2) c] ne assms(1) ps by (simp add: Let_def)
    then have "stored_shipments w' = set_property (stored_shipments w) (api_id shipment) ps"
      by (simp add: stored_shipments_def loadState_def existsSync_def readFileSync_def JSON_parse_def)
    then show ?thesis using ps by simp
  qed
  from sent conv kept show ?thesis by blast
qed

theorem createShipment_units_witness:
  "(\<exists>params.
      calls (snd (createShipment scenario_services no_file (scenario_options\<lparr>opt_parcel := boxed_parcel\<rparr>)))
        = [ShipmentCreate params] \<and>
      request_parcel params =
        \<lparr>weight_oz = 70.548, length_in = Some 11.811, width_in = Some 7.874, height_in = None\<rparr>) \<and>
   stored_shipments
     (snd (createShipment scenario_services no_file (scenario_options\<lparr>opt_parcel := boxed_parcel\<rparr>)))
     ''shp_1'' = Some (pending_record\<lparr>parcel := boxed_parcel\<rparr>) \<and>
   parcel (pending_record\<lparr>parcel := boxed_parcel\<rparr>) =
     \<lparr>length_cm = Some 30, width_cm = Some 20, height_cm = None, weight_kg = 2\<rparr>"
proof -
  let ?options = "scenario_options\<lparr>opt_parcel := boxed_parcel\<rparr>"
  have r: "createShipment scenario_services no_file ?options =
      (Inr (pending_record\<lparr>parcel := boxed_parcel\<rparr>),
       snd (createShipment scenario_services no_file ?options))"
    by (simp add: prod_eq_iff createShipment_eval)
  have d: "destination scenario_services no_file ?options = (Inr customer_address, no_file)"
    by (simp add: destination_def truthy_string_def scenario_options_def)
  have z: "length_cm (opt_parcel ?options) \<noteq> Some 0" "width_cm (opt_parcel ?options) \<noteq> Some 0"
    "height_cm (opt_parcel ?options) \<noteq> Some 0"
    by (simp_all add: boxed_parcel_def)
  have e: "stored_shipments no_file = Map.empty"
    by (simp add: stored_shipments_def no_file_def loadState_def existsSync_def empty_state_def)
  have n: "calls no_file = []"
    by (simp add: no_file_def)
  show ?thesis
    using createShipment_units [OF r d z]
    by (auto simp: boxed_parcel_def e n set_property_def pending_record_def)
qed

text \<open>
  C10, as amended. When \<open>orderId\<close> is a non-empty string it takes precedence: the
  destination is what the order lookup yields and the call does not depend on
  \<open>toAddress\<close> at all. The error "Either orderId or toAddress must be provided" is
  raised exactly when \<open>orderId\<close> is absent or empty and \<open>toAddress\<close> is absent.
\<close>

theorem createShipment_orderId_precedence:
  "(opt_orderId options = Some oid \<and> oid \<noteq> [] \<longrightarrow>
      createShipment env w (options\<lparr>opt_toAddress := ta\<rparr>) = createShipment env w options \<and>
      destination env w options =
        (case fetchShopifyOrderAddress env oid of
           Inl msg \<Rightarrow> Inl (Error AddressResolution msg) | Inr a \<Rightarrow> Inr a,
         called (GetOrder oid) w)) \<and>
   ((\<exists>msg. fst (createShipment env w options) = Inl (Error MissingDestination msg)) \<longleftrightarrow>
      \<not> truthy_string (opt_orderId options) \<and> opt_toAddress options = None)"
proof -
  have a: "createShipment env w (options\<lparr>opt_toAddress := ta\<rparr>) = createShipment env w options"
    and b: "destination env w options =
        (case fetchShopifyOrderAddress env oid of
           Inl msg \<Rightarrow> Inl (Error AddressResolution msg) | Inr a \<Rightarrow> Inr a,
         called (GetOrder oid) w)"
    if "opt_orderId options = Some oid" "oid \<noteq> []"
  proof -
    show "destination env w options =
        (case fetchShopifyOrderAddress env oid of
           Inl msg \<Rightarrow> Inl (Error AddressResolution msg) | Inr a \<Rightarrow> Inr a,
         called (GetOrder oid) w)"
      using that by (simp add: destination_def truthy_string_def split: sum.splits)
    have "destination env w (options\<lparr>opt_toAddress := ta\<rparr>) = destination env w options"
      using that by (simp add: destination_def truthy_string_def)
    then show "createShipment env w (options\<lparr>opt_toAddress := ta\<rparr>) = createShipment env w options"
      by (simp add: createShipment_def extract_rates_def Let_def split: prod.splits sum.splits)
  qed
  have c: "(\<exists>msg. fst (createShipment env w options) = Inl (Error MissingDestination msg)) \<longleftrightarrow>
      \<not> truthy_string (opt_orderId options) \<and> opt_toAddress options = None"
    using loadState_never_Inl
    by (auto simp: createShipment_def destination_def Let_def truthy_string_def
        split: option.splits sum.splits prod.splits if_splits)
  from a b c show ?thesis by blast
qed

theorem createShipment_orderId_precedence_witness:
  "createShipment scenario_services no_file
     (scenario_options\<lparr>opt_orderId := Some ''1001'', opt_toAddress := None\<rparr>) =
   createShipment scenario_services no_file (scenario_options\<lparr>opt_orderId := Some ''1001''\<rparr>) \<and>
   opt_toAddress (scenario_options\<lparr>opt_orderId := Some ''1001''\<rparr>) = Some customer_address \<and>
   destination scenario_services no_file (scenario_options\<lparr>opt_orderId := Some ''1001''\<rparr>) =
     (Inr order_address, called (GetOrder ''1001'') no_file) \<and>
   (\<exists>msg. fst (createShipment scenario_services no_file (scenario_options\<lparr>opt_toAddress := None\<rparr>))
      = Inl (Error MissingDestination msg))"
  using createShipment_orderId_precedence
      [of "scenario_options\<lparr>opt_orderId := Some ''1001''\<rparr>" "''1001''" scenario_services
        no_file None]
    createShipment_orderId_precedence
      [of "scenario_options\<lparr>opt_toAddress := None\<rparr>" "''1001''" scenario_services no_file None]
  by (simp add: scenario_options_def scenario_services_def truthy_string_def)

text \<open>
  As C10 is stated it fails on an \<open>orderId\<close> that is the empty string: the source
  tests \<open>options.orderId\<close> for truthiness, so the supplied \<open>toAddress\<close> is used
  and no order is looked up; and with no \<open>toAddress\<close> the error is raised although an
  \<open>orderId\<close> was given.
\<close>

theorem createShipment_empty_orderId_counterexample:
  "opt_orderId (scenario_options\<lparr>opt_orderId := Some []\<rparr>) = Some [] \<and>
   opt_toAddress (scenario_options\<lparr>opt_orderId := Some []\<rparr>) = Some customer_address \<and>
   destination scenario_services no_file (scenario_options\<lparr>opt_orderId := Some []\<rparr>)
     = (Inr customer_address, no_file) \<and>
   fst (createShipment scenario_services no_file (scenario_options\<lparr>opt_orderId := Some []\<rparr>))
     = Inr (pending_record\<lparr>orderId := Some []\<rparr>) \<and>
   toAddress (pending_record\<lparr>orderId := Some []\<rparr>) = customer_address \<and>
   fst (createShipment scenario_services no_file
          (scenario_options\<lparr>opt_orderId := Some [], opt_toAddress := None\<rparr>))
     = Inl (Error MissingDestination ''Either orderId or toAddress must be provided'')"
  by (simp add: createShipment_eval)

section \<open>Buying a label\<close>

text \<open>
  C4. \<open>buyLabel\<close> is not idempotent. On a stored shipment whose status is
  \<open>purchased\<close> it fails with the already-purchased error, whose message ends with the
  tracking code the record holds (printed by the template literal), and changes nothing;
  and after a call that succeeded, a second call with the same identifiers fails with
  that error, naming the tracking code of the first purchase, whatever the carrier would
  answer.
\<close>

theorem buyLabel_not_idempotent:
  "(stored_shipments w sid = Some r \<and> status r = purchased \<longrightarrow>
      buyLabel env w sid rid =
        (Inl (Error AlreadyPurchased
           (''Shipment '' @ sid @ '' already purchased. Tracking: '' @ template (trackingCode r))),
         w)) \<and>
   (buyLabel env w sid rid = (Inr label, w') \<longrightarrow>
      buyLabel env' w' sid rid =
        (Inl (Error AlreadyPurchased
           (''Shipment '' @ sid @ '' already purchased. Tracking: '' @ label_trackingCode label)),
         w'))"
proof -
  have first: "buyLabel env w sid rid =
        (Inl (Error AlreadyPurchased
           (''Shipment '' @ sid @ '' already purchased. Tracking: '' @ template (trackingCode r))),
         w)"
    if "stored_shipments w sid = Some r" "status r = purchased"
    using buyLabel_purchased [OF that] .
  have second: "buyLabel env' w' sid rid =
        (Inl (Error AlreadyPurchased
           (''Shipment '' @ sid @ '' already purchased. Tracking: '' @ label_trackingCode label)),
         w')"
    if "buyLabel env w sid rid = (Inr label, w')"
  proof -
    from buyLabel_Inr [OF that] obtain r0 where
      "stored_shipments w' sid =
         Some (r0\<lparr>status := purchased, trackingCode := Some (label_trackingCode label),
                 labelUrl := label_labelUrl label\<rparr>)"
      by blast
    from buyLabel_purchased [OF this] show ?thesis
      by (simp add: template_def)
  qed
  from first second show ?thesis by blast
qed

theorem buyLabel_not_idempotent_witness:
  "buyLabel scenario_services (world_with purchased_record) ''shp_1'' ''rate_dhl'' =
     (Inl (Error AlreadyPurchased ''Shipment shp_1 already purchased. Tracking: 1Z999''),
      world_with purchased_record) \<and>
   fst (buyLabel scenario_services (world_with pending_record) ''shp_1'' ''rate_dhl'') =
     Inr \<lparr>label_trackingCode = ''1Z999'', label_labelUrl = Some ''https://labels/1Z999'',
          label_carrier = Some ''DHL'', label_service = ''Parcel'', label_rate = ''9.99'',
          label_currency = ''GBP''\<rparr> \<and>
   fst (buyLabel scenario_services
          (snd (buyLabel scenario_services (world_with pending_record) ''shp_1'' ''rate_dhl''))
          ''shp_1'' ''rate_dhl'') =
     Inl (Error AlreadyPurchased ''Shipment shp_1 already purchased. Tracking: 1Z999'')"
proof -
  let ?label = "\<lparr>label_trackingCode = ''1Z999'', label_labelUrl = Some ''https://labels/1Z999'',
          label_carrier = Some ''DHL'', label_service = ''Parcel'', label_rate = ''9.99'',
          label_currency = ''GBP''\<rparr>"
  let ?w' = "snd (buyLabel scenario_services (world_with pending_record) ''shp_1'' ''rate_dhl'')"
  have s: "stored_shipments (world_with purchased_record) ''shp_1'' = Some purchased_record \<and>
           status purchased_record = purchased \<and> trackingCode purchased_record = Some ''1Z999''"
    by (simp add: stored_world_with purchased_record_def pending_record_def)
  have b: "fst (buyLabel scenario_services (world_with pending_record) ''shp_1'' ''rate_dhl'') = Inr ?label"
    by (simp add: operation_eval scenario_defs)
  then have b': "buyLabel scenario_services (world_with pending_record) ''shp_1'' ''rate_dhl'' =
      (Inr ?label, ?w')"
    by (simp add: prod_eq_iff)
  show ?thesis
    using buyLabel_not_idempotent [of "world_with purchased_record" "''shp_1''" purchased_record
        scenario_services "''rate_dhl''"]
      buyLabel_not_idempotent [of "world_with pending_record" "''shp_1''" purchased_record
        scenario_services "''rate_dhl''" ?label ?w' scenario_services]
      s b b'
    by (simp add: template_def)
qed

text \<open>
  C5, as amended. On a stored shipment that is not already purchased, a \<open>buyLabel\<close>
  call whose \<open>rateId\<close> is the identifier of none of the stored rates fails with the
  rate-not-found error, whose message lists the identifiers of the stored rates, and
  leaves the world as it was: no call to the purchase endpoint, no write of the store.
\<close>

theorem buyLabel_rate_not_found:
  assumes "stored_shipments w sid = Some r"
    and "status r \<noteq> purchased"
    and "rid \<notin> rate_id ` set (rates r)"
  shows "buyLabel env w sid rid =
           (Inl (Error RateNotFound
              (''Rate '' @ rid @ '' not found for shipment '' @ sid @ ''. Available rates: ''
                 @ join '', '' (map rate_id (rates r)))),
            w)"
proof -
  obtain st where "loadState (now env) (state_file w) = Inr st" "shipments st = stored_shipments w"
    by (rule loadState_obtain)
  with assms find_None_rate [OF assms(3)] show ?thesis
    by (simp add: buyLabel_def get_property_own status_of_def rates_of_def)
qed

theorem buyLabel_rate_not_found_witness:
  "buyLabel scenario_services (world_with pending_record) ''shp_1'' ''rate_fedex'' =
     (Inl (Error RateNotFound
        ''Rate rate_fedex not found for shipment shp_1. Available rates: rate_dhl, rate_ups''),
      world_with pending_record) \<and>
   calls (world_with pending_record) = []"
proof -
  have s: "stored_shipments (world_with pending_record) ''shp_1'' = Some pending_record"
    by (simp add: stored_world_with pending_record_def)
  have p: "status pending_record \<noteq> purchased"
    by (simp add: pending_record_def)
  have n: "''rate_fedex'' \<notin> rate_id ` set (rates pending_record)"
    by (simp add: pending_record_def dhl_rate_def ups_rate_def)
  show ?thesis
    using buyLabel_rate_not_found [OF s p n, of scenario_services]
    by (simp add: pending_record_def dhl_rate_def ups_rate_def world_with_def)
qed

text \<open>
  As C5 is stated it fails on a shipment that is already purchased: the status is
  tested before the rate, so the error is the already-purchased one.
\<close>

theorem buyLabel_purchased_counterexample:
  "stored_shipments (world_with purchased_record) ''shp_1'' = Some purchased_record \<and>
   map rate_id (rates purchased_record) = [''rate_dhl'', ''rate_ups''] \<and>
   buyLabel scenario_services (world_with purchased_record) ''shp_1'' ''rate_fedex'' =
     (Inl (Error AlreadyPurchased ''Shipment shp_1 already purchased. Tracking: 1Z999''),
      world_with purchased_record)"
  by (simp add: operation_eval scenario_defs)

section \<open>Cancelling a shipment\<close>

text \<open>
  C6 holds for the identifiers the carrier assigns (see the auxiliary facts on
  \<open>cancelShipment\<close>) and fails for an identifier that names a member of
  \<open>Object.prototype\<close>. With no record stored under \<open>constructor\<close>, the lookup
  \<open>state.shipments[shipmentId]\<close> yields the inherited function, the test
  \<open>!shipment\<close> does not fire, and \<open>cancelShipment\<close> reports success and writes
  the state file; \<open>getRates\<close> on that identifier returns \<open>undefined\<close> instead of
  raising the not-found error.
\<close>

theorem cancelShipment_inherited_key:
  "stored_shipments no_file ''constructor'' = None \<and>
   cancelShipment scenario_services no_file ''constructor'' =
     (Inr \<lparr>success = True, message = ''Shipment cancelled. No charges incurred.''\<rparr>,
      \<lparr>state_file =
         Readable (Json \<lparr>shipments = Map.empty, lastUpdated = ''2026-01-01T00:00:00.000Z''\<rparr>),
       calls = []\<rparr>) \<and>
   fst (getRates scenario_services no_file ''constructor'') = Inr None"
  by (simp add: operation_eval scenario_defs)

section \<open>Voiding a label\<close>




section \<open>The transitions of a status\<close>

text \<open>
  C1, as amended. Let a record be stored with status \<open>pending\<close> or
  \<open>purchased\<close>, and let the carrier assign new identifiers to new shipments. Then one
  operation of the workflow leaves the record as it is, or \<open>buyLabel\<close> takes it from
  \<open>pending\<close> to \<open>purchased\<close> (setting the tracking code and the label URL only),
  or \<open>cancelShipment\<close> removes it while it is \<open>pending\<close>, or \<open>voidLabel\<close>,
  which tests no status, sets its status to \<open>voided\<close>, from \<open>pending\<close> as well as
  from \<open>purchased\<close>.
\<close>

theorem status_transitions:
  assumes "stored_shipments w k = Some r"
    and "status r \<noteq> voided"
    and "\<forall>p s. Shipment_create env p = Inr s \<longrightarrow> api_id s \<noteq> k"
  shows "stored_shipments (run env op w) k = Some r \<or>
         (\<exists>rid t u. op = BuyLabel k rid \<and> status r = pending \<and>
            stored_shipments (run env op w) k =
              Some (r\<lparr>status := purchased, trackingCode := Some t, labelUrl := u\<rparr>)) \<or>
         (op = CancelShipment k \<and> status r = pending \<and> stored_shipments (run env op w) k = None) \<or>
         (op = VoidLabel k \<and> stored_shipments (run env op w) k = Some (r\<lparr>status := voided\<rparr>))"
proof (cases op)
  case (CreateShipment options)
  then show ?thesis
    using createShipment_stored [OF assms(3)] assms(1) by simp
next
  case (BuyLabel sid rid)
  from buyLabel_stored [of env w sid rid] show ?thesis
  proof
    assume "stored_shipments (snd (buyLabel env w sid rid)) = stored_shipments w"
    then show ?thesis using BuyLabel assms(1) by simp
  next
    assume "\<exists>label. buyLabel env w sid rid = (Inr label, snd (buyLabel env w sid rid))"
    then obtain label where b: "buyLabel env w sid rid = (Inr label, snd (buyLabel env w sid rid))"
      by blast
    from buyLabel_Inr [OF b] obtain r0 where r0: "stored_shipments w sid = Some r0"
      "status r0 \<noteq> purchased"
      "stored_shipments (snd (buyLabel env w sid rid)) sid =
         Some (r0\<lparr>status := purchased, trackingCode := Some (label_trackingCode label),
                 labelUrl := label_labelUrl label\<rparr>)"
      by blast
    show ?thesis
    proof (cases "k = sid")
      case True
      with r0 assms(1,2) have "r0 = r" "status r = pending"
        by (simp, cases "status r", simp_all)
      with r0 True BuyLabel show ?thesis by auto
    next
      case False
      obtain st where st: "loadState (now env) (state_file w) = Inr st"
        "shipments st = stored_shipments w"
        by (rule loadState_obtain)
      have "stored_shipments (snd (buyLabel env w sid rid)) k = stored_shipments w k"
        using b st False r0(1)
        by (auto simp: buyLabel_def Let_def get_property_own update_found_def stored_after_save
            split: if_splits option.splits sum.splits)
      with BuyLabel assms(1) show ?thesis by simp
    qed
  qed
next
  case (CancelShipment sid)
  show ?thesis
  proof (cases "k = sid")
    case True
    show ?thesis
    proof (cases "status r = purchased")
      case True
      from cancelShipment_purchased [OF assms(1) True, of env] \<open>k = sid\<close> assms(1) CancelShipment
      show ?thesis by simp
    next
      case False
      with assms(2) have "status r = pending" by (cases "status r") simp_all
      with cancelShipment_unpurchased [OF assms(1) False, of env] \<open>k = sid\<close> CancelShipment
      show ?thesis by simp
    qed
  next
    case False
    from cancelShipment_other [OF False, of env w] CancelShipment assms(1) show ?thesis by simp
  qed
next
  case (GetRates sid)
  obtain st where "loadState (now env) (state_file w) = Inr st"
    by (rule loadState_obtain)
  then have "snd (getRates env w sid) = w"
    by (simp add: getRates_def Let_def)
  with GetRates assms(1) show ?thesis by simp
next
  case (VoidLabel sid)
  from voidLabel_stored [of env w sid] VoidLabel assms(1) show ?thesis
    by (cases "k = sid") auto
qed

theorem status_transitions_witness:
  "stored_shipments (run later_services (BuyLabel ''shp_1'' ''rate_dhl'') (world_with pending_record))
     ''shp_1'' = Some purchased_record \<and>
   stored_shipments (run later_services (CancelShipment ''shp_1'') (world_with pending_record))
     ''shp_1'' = None \<and>
   stored_shipments (run later_services (VoidLabel ''shp_1'') (world_with purchased_record))
     ''shp_1'' = Some voided_record \<and>
   stored_shipments (run later_services (CancelShipment ''shp_1'') (world_with purchased_record))
     ''shp_1'' = Some purchased_record \<and>
   stored_shipments (run later_services (CreateShipment scenario_options) (world_with purchased_record))
     ''shp_1'' = Some purchased_record"
proof -
  have fresh: "\<forall>p s. Shipment_create later_services p = Inr s \<longrightarrow> api_id s \<noteq> ''shp_1''"
    by (auto simp: later_services_def scenario_services_def)
  have p: "stored_shipments (world_with pending_record) ''shp_1'' = Some pending_record"
    "status pending_record \<noteq> voided"
    by (simp_all add: stored_world_with pending_record_def)
  have q: "stored_shipments (world_with purchased_record) ''shp_1'' = Some purchased_record"
    "status purchased_record \<noteq> voided"
    by (simp_all add: stored_world_with purchased_record_def pending_record_def)
  have buy: "stored_shipments (run later_services (BuyLabel ''shp_1'' ''rate_dhl'') (world_with pending_record))
     ''shp_1'' = Some purchased_record"
    using status_transitions [OF p fresh, of "BuyLabel ''shp_1'' ''rate_dhl''"]
    by (simp add: operation_eval scenario_defs2)
  have cancel: "stored_shipments (run later_services (CancelShipment ''shp_1'') (world_with pending_record))
     ''shp_1'' = None"
    using status_transitions [OF p fresh, of "CancelShipment ''shp_1''"]
    by (simp add: operation_eval scenario_defs2)
  have void: "stored_shipments (run later_services (VoidLabel ''shp_1'') (world_with purchased_record))
     ''shp_1'' = Some voided_record"
    using status_transitions [OF q fresh, of "VoidLabel ''shp_1''"]
    by (simp add: operation_eval scenario_defs2)
  have keep: "stored_shipments (run later_services (CancelShipment ''shp_1'') (world_with purchased_record))
     ''shp_1'' = Some purchased_record"
    using status_transitions [OF q fresh, of "CancelShipment ''shp_1''"]
    by (simp add: purchased_record_def)
  have create: "stored_shipments (run later_services (CreateShipment scenario_options) (world_with purchased_record))
     ''shp_1'' = Some purchased_record"
    using status_transitions [OF q fresh, of "CreateShipment scenario_options"]
    by simp
  from buy cancel void keep create show ?thesis by simp
qed

text \<open>
  As C1 is stated it fails: \<open>voidLabel\<close> on a \<open>pending\<close> record, the refund call
  succeeding, makes it \<open>voided\<close>.
\<close>

theorem voidLabel_pending_counterexample:
  "map_option status (stored_shipments (world_with pending_record) ''shp_1'') = Some pending \<and>
   map_option status
     (stored_shipments (run scenario_services (VoidLabel ''shp_1'') (world_with pending_record))
        ''shp_1'') = Some voided"
  by (simp add: operation_eval scenario_defs2)

text \<open>
  A \<open>voided\<close> record is outside the statement above. The guards of \<open>buyLabel\<close>
  and \<open>cancelShipment\<close> test for \<open>purchased\<close> only, so in the scenario such a
  record can be bought again and can be cancelled.
\<close>

lemma voided_record_is_not_guarded:
  "map_option status
     (stored_shipments (run scenario_services (BuyLabel ''shp_1'' ''rate_dhl'') (world_with voided_record))
        ''shp_1'') = Some purchased \<and>
   stored_shipments (run scenario_services (CancelShipment ''shp_1'') (world_with voided_record))
     ''shp_1'' = None"
  by (simp add: operation_eval scenario_defs2)

end
